theory Spec2Isabelle
  imports Main "HOL-Library.Monad_Syntax"
begin

section \<open>JavaScript values, as far as the page uses them\<close>

text \<open>
  Strings are \<^typ>\<open>string\<close>: the UTF-8 bytes of the JavaScript string. Every separator
  and needle of the source (\<open>'-'\<close>, \<open>' '\<close>, \<open>'&'\<close>, \<open>'='\<close>, \<open>'day'\<close>) is ASCII, so splitting
  and searching on bytes agree with the source's operations on code units.

  A JavaScript number is a double. Its type is left abstract (\<open>'n\<close>); what the platform
  does with one (printing it, testing it for zero or NaN) is a parameter of the model.
\<close>

datatype 'n jsval =
    Undefined
  | Null
  | Bool bool
  | Num 'n
  | Str string
  | Arr "'n jsval list"
  | Obj "(string \<times> 'n jsval) list"

text \<open>
  An \<open>Obj\<close> holds the own properties of an object that \<open>JSON.parse\<close> built, each name
  once; an \<open>Arr\<close> the elements of an array.

  What the browser and the libraries provide and the repository only calls:
  \<open>Number::toString\<close>, the falsy numbers (\<open>+0\<close>, \<open>-0\<close>, \<open>NaN\<close>), the two date formatters of
  \<open>main.js\<close>,
  \<open>new Date(s).toLocaleDateString('en', {month: 'long', day: 'numeric'})\<close> and
  \<open>new Date(s).toLocaleTimeString('en', {hour: 'numeric', minute: 'numeric', hourCycle: 'h12'})\<close>,
  each as a function of the string \<open>s\<close>, and what the \<open>html\<close> tag of nanohtml does with a
  plain object in child position: the text it appends for it, or a TypeError (\<open>None\<close>).
\<close>

record 'n platform =
  Number_toString :: "'n \<Rightarrow> string"
  Number_falsy :: "'n \<Rightarrow> bool"
  toLocaleDateString :: "string \<Rightarrow> string"
  toLocaleTimeString :: "string \<Rightarrow> string"
  object_child :: "(string \<times> 'n jsval) list \<Rightarrow> string option"

text \<open>The state in which an awaited promise ends up.\<close>

datatype 'a promise = Resolved 'a | Rejected | Pending

subsection \<open>String operations\<close>

text \<open>\<open>s.split(sep)\<close> for a one-character separator. The result is never empty:
  \<open>''.split('-')\<close> is \<open>['']\<close>.\<close>

fun split :: "char \<Rightarrow> string \<Rightarrow> string list" where
  "split sep [] = [[]]"
| "split sep (c # cs) =
     (if c = sep then [] # split sep cs
      else (case split sep cs of
              [] \<Rightarrow> [[c]]
            | w # ws \<Rightarrow> (c # w) # ws))"

text \<open>\<open>xs[i]\<close> on an array of strings: \<open>undefined\<close> out of range.\<close>

definition index :: "string list \<Rightarrow> nat \<Rightarrow> 'n jsval" where
  "index xs i = (if i < length xs then Str (xs ! i) else Undefined)"

definition startsWith :: "string \<Rightarrow> string \<Rightarrow> bool" where
  "startsWith s sub = (take (length sub) s = sub)"

text \<open>\<open>s.includes(sub)\<close> on strings: \<open>sub\<close> occurs somewhere in \<open>s\<close>.\<close>

fun includes_str :: "string \<Rightarrow> string \<Rightarrow> bool" where
  "includes_str [] sub = (sub = [])"
| "includes_str (c # cs) sub = (startsWith (c # cs) sub \<or> includes_str cs sub)"

text \<open>
  \<open>v.includes(x)\<close> as a method call on any value: strings search for a substring, arrays
  for an element; every other value has no such method and the call throws a TypeError
  (\<open>None\<close>).
\<close>

definition includes_method :: "'n jsval \<Rightarrow> string \<Rightarrow> bool option" where
  "includes_method v sub =
     (case v of
        Str s \<Rightarrow> Some (includes_str s sub)
      | Arr xs \<Rightarrow> Some (Str sub \<in> set xs)
      | _ \<Rightarrow> None)"

section \<open>utils.js\<close>

subsection \<open>useLanguage\<close>

text \<open>
  \<open>navigator.language\<close> is a string, or \<open>undefined\<close> (\<open>None\<close>) where the browser has none.
  \<open>navigator.geolocation\<close> is absent (\<open>None\<close>) or an object whose \<open>getCurrentPosition\<close>
  answers in one of three ways: it calls the success callback with coordinates, it calls
  the error callback, or it calls neither.
\<close>

datatype 'n geolocation = Position 'n 'n | PositionError | NoCallback

record 'n navigator =
  language :: "string option"
  geolocation :: "'n geolocation option"

text \<open>
  \<^verbatim>\<open>
  export const useLanguage = async () => {
    return new Promise(resolve => {
      if (navigator.language) {
        resolve(navigator.language.split('-')[0])
      } else {
        resolve('en')
      }
    })
  }
  \<close>
  The empty string is falsy, like \<open>undefined\<close>.
\<close>

definition useLanguage :: "'n navigator \<Rightarrow> 'n jsval promise" where
  "useLanguage nav =
     (case language nav of
        None \<Rightarrow> Resolved (Str ''en'')
      | Some l \<Rightarrow>
          if l \<noteq> [] then Resolved (index (split CHR ''-'' l) 0)
          else Resolved (Str ''en''))"

subsection \<open>useLocation\<close>

text \<open>
  \<^verbatim>\<open>
  export const useLocation = async () => {
    return new Promise(resolve => {
      if (navigator.geolocation) {
        navigator.geolocation.getCurrentPosition(
          ({ coords }) => resolve(`${coords.latitude},${coords.longitude}`),
          () => resolve('auto:ip'),
          { enableHighAccuracy: true, timeout: 5000, maximumAge: 0 }
        )
      } else {
        resolve('auto:ip')
      }
    })
  }
  \<close>
  The result is the promise's final state together with the number of calls of
  \<open>getCurrentPosition\<close> made.
\<close>

definition useLocation :: "'n platform \<Rightarrow> 'n navigator \<Rightarrow> string promise \<times> nat" where
  "useLocation P nav =
     (case geolocation nav of
        Some g \<Rightarrow>
          (case g of
             Position lat lon \<Rightarrow>
               (Resolved (Number_toString P lat @ '','' @ Number_toString P lon), 1)
           | PositionError \<Rightarrow> (Resolved ''auto:ip'', 1)
           | NoCallback \<Rightarrow> (Pending, 1))
      | None \<Rightarrow> (Resolved ''auto:ip'', 0))"

subsection \<open>useGradient\<close>

text \<open>
  \<open>condition-codes.js\<close> exports \<open>conditions\<close>, an object of six arrays of condition
  codes. The table is a parameter of the model.
\<close>

record conditions =
  sunny :: "int list"
  rainy :: "int list"
  cloudy :: "int list"
  drizzle :: "int list"
  overcast :: "int list"
  foggy :: "int list"

record 'n condition =
  code :: int
  icon :: "'n jsval"

text \<open>
  \<^verbatim>\<open>
  export const useGradient = condition => {
    const { code, icon } = condition
    const isDay = icon.includes('day')
    switch (true) {
      case conditions.sunny.includes(code): return isDay ? ... : ...
      case conditions.rainy.includes(code) || conditions.cloudy.includes(code): ...
      case conditions.drizzle.includes(code): ...
      case conditions.overcast.includes(code): ...
      case conditions.foggy.includes(code): ...
      default: ...
    }
  }
  \<close>
  \<open>None\<close> is the TypeError of \<open>icon.includes\<close> on an icon that is neither a string nor an
  array.
\<close>

definition useGradient :: "conditions \<Rightarrow> 'n condition \<Rightarrow> string option" where
  "useGradient conds condition =
     (case includes_method (icon condition) ''day'' of
        None \<Rightarrow> None
      | Some isDay \<Rightarrow>
          Some
            (if code condition \<in> set (sunny conds) then
               (if isDay then ''--from: var(--orange); --to: var(--yellow)''
                else ''--from: var(--navy); --to: var(--blue)'')
             else if code condition \<in> set (rainy conds) \<or> code condition \<in> set (cloudy conds) then
               (if isDay then ''--from: var(--blue); --to: var(--aqua)''
                else ''--from: var(--navy); --to: var(--blue)'')
             else if code condition \<in> set (drizzle conds) then
               (if isDay then ''--from: var(--blue); --to: var(--teal)''
                else ''--from: var(--navy); --to: var(--teal)'')
             else if code condition \<in> set (overcast conds) then
               (if isDay then ''--from: var(--navy); --to: var(--teal)''
                else ''--from: var(--navy); --to: var(--olive)'')
             else if code condition \<in> set (foggy conds) then
               (if isDay then ''--from: var(--blue); --to: var(--olive)''
                else ''--from: var(--navy); --to: var(--olive)'')
             else
               (if isDay then ''--from: var(--blue); --to: var(--aqua)''
                else ''--from: var(--navy); --to: var(--blue)'')))"

subsection \<open>render\<close>

text \<open>
  The page, as far as the scripts touch it: the title (the string last assigned to
  \<open>document.title\<close>), the children of the element with id \<open>app\<close> (\<open>None\<close> when the page
  has no such element), and the DocumentFragment objects that exist, by identity. A fragment is a mutable object: appending it to an element
  moves its children there and leaves it empty.
\<close>

datatype node =
    Text string
  | Element string "(string \<times> string) list" "node list"

datatype app = Fragment nat | Node node

record document =
  title :: string
  app_children :: "node list option"
  fragments :: "nat \<Rightarrow> node list"
  next_fragment :: nat

text \<open>\<open>el.appendChild(app)\<close> on the element \<open>#app\<close>, whose children are \<open>cs\<close>.\<close>

definition appendChild :: "app \<Rightarrow> node list \<Rightarrow> document \<Rightarrow> document" where
  "appendChild a cs s =
     (case a of
        Fragment f \<Rightarrow>
          s\<lparr>app_children := Some (cs @ fragments s f),
            fragments := (fragments s)(f := [])\<rparr>
      | Node n \<Rightarrow> s\<lparr>app_children := Some (cs @ [n])\<rparr>)"

text \<open>
  \<^verbatim>\<open>
  export const $ = selector => document.querySelector(selector)
  export const render = app => {
    $('#app').innerHTML = null
    $('#app').appendChild(app)
  }
  \<close>
  \<open>$('#app')\<close> is \<open>null\<close> on a page without the element, and setting a property of \<open>null\<close>
  throws a TypeError (\<open>None\<close>). Setting \<open>innerHTML\<close> to \<open>null\<close> removes every child.
\<close>

definition render :: "app \<Rightarrow> document \<Rightarrow> document option" where
  "render a s =
     (case app_children s of
        None \<Rightarrow> None
      | Some old \<Rightarrow> Some (appendChild a [] (s\<lparr>app_children := Some []\<rparr>)))"

section \<open>main.js\<close>

subsection \<open>The page URL\<close>

text \<open>
  \<open>query\<close> is the query component of the page's URL, without the question mark.
  \<open>window.location.search\<close> is the empty string when the query is empty, and the question
  mark followed by the query otherwise. \<open>new URL(window.location).searchParams\<close> is the
  query parsed as \<open>application/x-www-form-urlencoded\<close> (the URL standard): split at
  \<open>&\<close>, empty pieces dropped, each piece split at its first \<open>=\<close>, \<open>+\<close> read as a
  space, percent escapes decoded. Decoded bytes are kept as they are (the browser
  replaces ill-formed UTF-8 by U+FFFD).
\<close>

record 'n window =
  query :: string
  navigator :: "'n navigator"

definition location_search :: "'n window \<Rightarrow> string" where
  "location_search w = (if query w = [] then [] else CHR ''?'' # query w)"

definition hex_digit :: "char \<Rightarrow> nat option" where
  "hex_digit c =
     (let n = of_char c :: nat in
      if 48 \<le> n \<and> n \<le> 57 then Some (n - 48)
      else if 65 \<le> n \<and> n \<le> 70 then Some (n - 55)
      else if 97 \<le> n \<and> n \<le> 102 then Some (n - 87)
      else None)"

fun percent_decode :: "string \<Rightarrow> string" where
  "percent_decode [] = []"
| "percent_decode [c] = [c]"
| "percent_decode [c, a] = [c, a]"
| "percent_decode (c # a # b # cs) =
     (if c = CHR ''%'' then
        (case (hex_digit a, hex_digit b) of
           (Some h, Some l) \<Rightarrow> char_of (16 * h + l) # percent_decode cs
         | _ \<Rightarrow> c # percent_decode (a # b # cs))
      else c # percent_decode (a # b # cs))"

definition urldecode :: "string \<Rightarrow> string" where
  "urldecode s = percent_decode (map (\<lambda>c. if c = CHR ''+'' then CHR '' '' else c) s)"

definition parse_pair :: "string \<Rightarrow> string \<times> string" where
  "parse_pair bytes =
     (let name = takeWhile (\<lambda>c. c \<noteq> CHR ''='') bytes
      in (urldecode name, urldecode (drop (length name + 1) bytes)))"

definition searchParams :: "'n window \<Rightarrow> (string \<times> string) list" where
  "searchParams w = map parse_pair (filter (\<lambda>piece. piece \<noteq> []) (split CHR ''&'' (query w)))"

text \<open>\<open>params.get(name)\<close>: the value of the first pair with that name, or \<open>null\<close>.\<close>

definition searchParams_get :: "(string \<times> string) list \<Rightarrow> string \<Rightarrow> 'n jsval" where
  "searchParams_get params name =
     (case map_of params name of None \<Rightarrow> Null | Some v \<Rightarrow> Str v)"

subsection \<open>The DOMContentLoaded handler\<close>

text \<open>
  \<^verbatim>\<open>
  const location = window.location.search
    ? new URL(window.location).searchParams.get('q')
    : await useLocation()
  const observable = SWR(location, fetcher)
  \<close>
  The handler's outcome: the key \<open>SWR\<close> is constructed with (\<open>None\<close> while the handler
  is still waiting for \<open>useLocation\<close>), and the number of calls of \<open>getCurrentPosition\<close>.
\<close>

record 'n loaded =
  SWR_key :: "'n jsval option"
  getCurrentPosition_calls :: nat

definition DOMContentLoaded :: "'n platform \<Rightarrow> 'n window \<Rightarrow> 'n loaded" where
  "DOMContentLoaded P w =
     (if location_search w \<noteq> [] then
        \<lparr>SWR_key = Some (searchParams_get (searchParams w) ''q''),
         getCurrentPosition_calls = 0\<rparr>
      else
        (case useLocation P (navigator w) of
           (Resolved l, calls) \<Rightarrow> \<lparr>SWR_key = Some (Str l), getCurrentPosition_calls = calls\<rparr>
         | (_, calls) \<Rightarrow> \<lparr>SWR_key = None, getCurrentPosition_calls = calls\<rparr>))"

subsection \<open>Values in templates\<close>

text \<open>
  A template literal turns each value into a string by JavaScript's \<open>ToString\<close>, which
  can throw a TypeError (\<open>None\<close>). A plain object is converted by the \<open>toString\<close> it
  inherits, and prints as \<open>[object Object]\<close>; an own property named \<open>toString\<close> hides
  that method and cannot be called (no value of a parsed JSON text can), and \<open>valueOf\<close>,
  own or inherited, gives no primitive value either, so the conversion throws. An array
  is its elements joined by commas, with \<open>null\<close> and \<open>undefined\<close> elements left empty,
  and the conversion of an element can throw.
\<close>

fun ToString :: "'n platform \<Rightarrow> 'n jsval \<Rightarrow> string option"
  and join :: "'n platform \<Rightarrow> 'n jsval list \<Rightarrow> string option" where
  "ToString P Undefined = Some ''undefined''"
| "ToString P Null = Some ''null''"
| "ToString P (Bool b) = Some (if b then ''true'' else ''false'')"
| "ToString P (Num n) = Some (Number_toString P n)"
| "ToString P (Str s) = Some s"
| "ToString P (Arr xs) = join P xs"
| "ToString P (Obj kvs) =
     (if map_of kvs ''toString'' = None then Some ''[object Object]'' else None)"
| "join P [] = Some []"
| "join P [x] = (if x = Undefined \<or> x = Null then Some [] else ToString P x)"
| "join P (x # y # ys) =
     do {
       first \<leftarrow> (if x = Undefined \<or> x = Null then Some [] else ToString P x);
       rest \<leftarrow> join P (y # ys);
       Some (first @ '','' @ rest)
     }"

text \<open>
  The values that \<open>ToString\<close> throws on: an object with an own property named
  \<open>toString\<close>, and an array that holds one, at any depth.
\<close>

fun unprintable :: "'n jsval \<Rightarrow> bool"
  and unprintables :: "'n jsval list \<Rightarrow> bool" where
  "unprintable Undefined = False"
| "unprintable Null = False"
| "unprintable (Bool b) = False"
| "unprintable (Num n) = False"
| "unprintable (Str s) = False"
| "unprintable (Arr xs) = unprintables xs"
| "unprintable (Obj kvs) = (map_of kvs ''toString'' \<noteq> None)"
| "unprintables [] = False"
| "unprintables (x # xs) = (unprintable x \<or> unprintables xs)"

text \<open>
  The text that the \<open>html\<close> tag of nanohtml appends to an element for a value in child
  position: numbers and booleans by \<open>toString\<close>, strings as they are, nothing for \<open>null\<close>
  and \<open>undefined\<close>, arrays element by element, and for a plain object what the
  library does with it.
\<close>

fun child_text :: "'n platform \<Rightarrow> 'n jsval \<Rightarrow> string option"
  and child_texts :: "'n platform \<Rightarrow> 'n jsval list \<Rightarrow> string option" where
  "child_text P Undefined = Some []"
| "child_text P Null = Some []"
| "child_text P (Bool b) = Some (if b then ''true'' else ''false'')"
| "child_text P (Num n) = Some (Number_toString P n)"
| "child_text P (Str s) = Some s"
| "child_text P (Arr xs) = child_texts P xs"
| "child_text P (Obj kvs) = object_child P kvs"
| "child_texts P [] = Some []"
| "child_texts P (x # xs) =
     do {
       first \<leftarrow> child_text P x;
       rest \<leftarrow> child_texts P xs;
       Some (first @ rest)
     }"

text \<open>
  \<open>if (v)\<close>: \<open>undefined\<close>, \<open>null\<close>, \<open>false\<close>, the empty string and the falsy numbers fail
  the test; every array and object passes it.
\<close>

definition truthy :: "'n platform \<Rightarrow> 'n jsval \<Rightarrow> bool" where
  "truthy P v =
     (case v of
        Undefined \<Rightarrow> False
      | Null \<Rightarrow> False
      | Bool b \<Rightarrow> b
      | Num n \<Rightarrow> \<not> Number_falsy P n
      | Str s \<Rightarrow> s \<noteq> []
      | Arr xs \<Rightarrow> True
      | Obj kvs \<Rightarrow> True)"

text \<open>
  \<open>v.p\<close> for the property names that \<open>main.js\<close> reads (\<open>location\<close>, \<open>current\<close>,
  \<open>wind_mph\<close>, \<open>humidity\<close>, \<open>pressure_mb\<close>, \<open>temp_f\<close>, \<open>condition\<close>, \<open>text\<close>, \<open>name\<close>,
  \<open>localtime\<close>, \<open>country\<close>): a TypeError (\<open>None\<close>) on \<open>undefined\<close> and \<open>null\<close>, the
  property's value on an object, and \<open>undefined\<close> where the object has no such property
  and on strings, numbers, booleans and arrays, which have none of these names.
\<close>

definition get :: "'n jsval \<Rightarrow> string \<Rightarrow> 'n jsval option" where
  "get v p =
     (case v of
        Undefined \<Rightarrow> None
      | Null \<Rightarrow> None
      | Obj kvs \<Rightarrow> Some (case map_of kvs p of None \<Rightarrow> Undefined | Some x \<Rightarrow> x)
      | _ \<Rightarrow> Some Undefined)"

text \<open>
  The receiver of \<open>v.split(' ')\<close>: only a string has the method; on every other value the
  call throws a TypeError.
\<close>

definition string_receiver :: "'n jsval \<Rightarrow> string option" where
  "string_receiver v = (case v of Str s \<Rightarrow> Some s | _ \<Rightarrow> None)"

subsection \<open>The watch callback\<close>

text \<open>
  The \<open>html\<close> tag with several root elements builds a new DocumentFragment holding them.
  White space between the tags of a template is left out of the tree.
\<close>

definition html :: "node list \<Rightarrow> document \<Rightarrow> nat \<times> document" where
  "html roots s =
     (next_fragment s,
      s\<lparr>fragments := (fragments s)(next_fragment s := roots),
        next_fragment := Suc (next_fragment s)\<rparr>)"

text \<open>The degree sign U+00B0, in UTF-8.\<close>

definition degree :: string where
  "degree = [CHR 0xC2, CHR 0xB0]"

text \<open>
  \<^verbatim>\<open>
  html`<li class="stats">
         <img src="/img/icons/${icon}.svg" alt="${icon}" />
         <span>${value}</span>
       </li>`
  \<close>
\<close>

definition stats_item :: "string \<times> string \<Rightarrow> node" where
  "stats_item stat =
     (case stat of
        (icon_name, val) \<Rightarrow>
          Element ''li'' [(''class'', ''stats'')]
            [Element ''img''
               [(''src'', ''/img/icons/'' @ icon_name @ ''.svg''), (''alt'', icon_name)] [],
             Element ''span'' [] [Text val]])"

text \<open>
  The \<open>datetime\<close> attributes take \<open>location.localtime.split(' ')[0]\<close> and \<open>[1]\<close>: a
  string, or \<open>undefined\<close> where the local time has no second part.
\<close>

definition attribute_text :: "'n jsval \<Rightarrow> string" where
  "attribute_text v = (case v of Str s \<Rightarrow> s | _ \<Rightarrow> ''undefined'')"

text \<open>
  Lines 12 to 51 of \<open>main.js\<close>: the values that the template interpolates, read in the
  order in which the source evaluates them, and then the tree that the \<open>html\<close> tag
  builds from them. Every step that can throw a TypeError is a step of the option
  monad: a property read on \<open>null\<close> or \<open>undefined\<close>, the conversion to a string in the
  three template literals of \<open>stats\<close>, the call of \<open>split\<close>, and the tag's handling of a
  value in child position. The result is the list of root elements, together with
  \<open>location\<close>. Nothing is written to the page in these lines. The tree holds each text
  as it is interpolated (nanohtml normalises white space inside a text; the strings of
  numbers have none).
\<close>

definition App_roots :: "'n platform \<Rightarrow> 'n jsval \<Rightarrow> (node list \<times> 'n jsval) option" where
  "App_roots P d =
     do {
       location \<leftarrow> get d ''location'';
       current \<leftarrow> get d ''current'';
       wind_mph \<leftarrow> get current ''wind_mph'';
       wind_text \<leftarrow> ToString P wind_mph;
       humidity \<leftarrow> get current ''humidity'';
       humidity_text \<leftarrow> ToString P humidity;
       pressure_mb \<leftarrow> get current ''pressure_mb'';
       pressure_text \<leftarrow> ToString P pressure_mb;
       let stats =
         [(''wind'', wind_text @ '' mph''),
          (''humidity'', humidity_text @ ''%''),
          (''pressure'', pressure_text @ '' mb'')];
       temp_f \<leftarrow> get current ''temp_f'';
       condition \<leftarrow> get current ''condition'';
       condition_text \<leftarrow> get condition ''text'';
       name \<leftarrow> get location ''name'';
       localtime \<leftarrow> get location ''localtime'';
       lt \<leftarrow> string_receiver localtime;
       temperature \<leftarrow> child_text P temp_f;
       condition_shown \<leftarrow> child_text P condition_text;
       name_shown \<leftarrow> child_text P name;
       Some
         ([Element ''section'' [(''class'', ''weather'')]
            [Element ''span'' [(''class'', ''temperature'')]
               [Text (temperature @ degree @ ''F'')],
             Element ''span'' [(''class'', ''condition'')] [Text condition_shown]],
           Element ''section'' [(''class'', ''details'')]
            [Element ''h1'' [(''class'', ''location'')] [Text name_shown],
             Element ''time''
               [(''class'', ''date''),
                (''datetime'', attribute_text (index (split CHR '' '' lt) 0 :: 'n jsval))]
               [Text (toLocaleDateString P lt)],
             Element ''time''
               [(''class'', ''time''),
                (''datetime'', attribute_text (index (split CHR '' '' lt) 1 :: 'n jsval))]
               [Text (toLocaleTimeString P lt)],
             Element ''ul'' [] (map stats_item stats)]],
          location)
     }"

text \<open>
  \<^verbatim>\<open>
  `Weather forecast in ${location.name}, ${location.country}`
  \<close>
  The template literal of line 53, evaluated before the assignment to \<open>document.title\<close>.
\<close>

definition title_text :: "'n platform \<Rightarrow> 'n jsval \<Rightarrow> string option" where
  "title_text P location =
     do {
       name \<leftarrow> get location ''name'';
       name_text \<leftarrow> ToString P name;
       country \<leftarrow> get location ''country'';
       country_text \<leftarrow> ToString P country;
       Some (''Weather forecast in '' @ name_text @ '', '' @ country_text)
     }"

text \<open>
  How a run of the callback ends: it returns, or a TypeError leaves it; either way with
  the page as it is at that moment.
\<close>

datatype completion = Returned document | Thrown document

text \<open>
  The callback of \<open>observable.watch\<close>, lines 10 to 56 of \<open>main.js\<close>, on one emission
  \<open>{ data }\<close>:
  \<^verbatim>\<open>
  observable.watch(({ data }) => {
    if (data) {
      const { location, current } = data
      ...
      const App = html`...`
      document.title = `Weather forecast in ${location.name}, ${location.country}`
      render(App)
    }
  })
  \<close>
  Nothing is written to the page before the template's values are all read and the
  title's text is built; the title is written before \<open>render\<close> runs.
\<close>

record 'n emission =
  data :: "'n jsval"

definition watch_callback :: "'n platform \<Rightarrow> 'n emission \<Rightarrow> document \<Rightarrow> completion" where
  "watch_callback P e s =
     (if truthy P (data e) then
        (case App_roots P (data e) of
           None \<Rightarrow> Thrown s
         | Some (roots, location) \<Rightarrow>
             (case html roots s of
                (App, s1) \<Rightarrow>
                  (case title_text P location of
                     None \<Rightarrow> Thrown s1
                   | Some t \<Rightarrow>
                       (let s2 = s1\<lparr>title := t\<rparr>
                        in (case render (Fragment App) s2 of
                              None \<Rightarrow> Thrown s2
                            | Some s3 \<Rightarrow> Returned s3)))))
      else Returned s)"

subsection \<open>Reading the page\<close>

text \<open>
  Reading \<open>document.title\<close> gives the text assigned to it with ASCII white space (tab,
  line feed, form feed, carriage return, space) stripped at both ends and every run of
  it inside collapsed to one space. \<open>started\<close>: a character has been put out;
  \<open>gap\<close>: white space has been passed since.
\<close>

definition ascii_whitespace :: "char \<Rightarrow> bool" where
  "ascii_whitespace c = (c \<in> set [CHR 0x09, CHR 0x0A, CHR 0x0C, CHR 0x0D, CHR 0x20])"

fun collapse :: "bool \<Rightarrow> bool \<Rightarrow> string \<Rightarrow> string" where
  "collapse started gap [] = []"
| "collapse started gap (c # cs) =
     (if ascii_whitespace c then collapse started started cs
      else if gap then CHR 0x20 # c # collapse True False cs
      else c # collapse True False cs)"


text \<open>\<open>node.textContent\<close>, and the first element of a list of trees, in document order,
  whose \<open>class\<close> attribute is the given name.\<close>

fun textContent :: "node \<Rightarrow> string" where
  "textContent (Text t) = t"
| "textContent (Element tag attrs children) = concat (map textContent children)"

fun by_class :: "string \<Rightarrow> node \<Rightarrow> node option"
  and first_by_class :: "string \<Rightarrow> node list \<Rightarrow> node option" where
  "by_class c (Text t) = None"
| "by_class c (Element tag attrs children) =
     (if map_of attrs ''class'' = Some c then Some (Element tag attrs children)
      else first_by_class c children)"
| "first_by_class c [] = None"
| "first_by_class c (n # ns) =
     (case by_class c n of Some m \<Rightarrow> Some m | None \<Rightarrow> first_by_class c ns)"

section \<open>The gradient mapper as an ordered rule list\<close>

text \<open>
  The specification describes the mapper as a static ordered list of pairs of a
  predicate on the condition code and a result, tried in order, the first match
  winning, with a default when none matches. Each result is a pair: the descriptor by
  day and the descriptor by night.
\<close>

fun first_match :: "(('a \<Rightarrow> bool) \<times> 'b) list \<Rightarrow> 'b \<Rightarrow> 'a \<Rightarrow> 'b" where
  "first_match [] d x = d"
| "first_match ((p, r) # rules) d x = (if p x then r else first_match rules d x)"

definition gradient_rules :: "conditions \<Rightarrow> ((int \<Rightarrow> bool) \<times> string \<times> string) list" where
  "gradient_rules conds =
     [(\<lambda>c. c \<in> set (sunny conds),
       ''--from: var(--orange); --to: var(--yellow)'', ''--from: var(--navy); --to: var(--blue)''),
      (\<lambda>c. c \<in> set (rainy conds) \<or> c \<in> set (cloudy conds),
       ''--from: var(--blue); --to: var(--aqua)'', ''--from: var(--navy); --to: var(--blue)''),
      (\<lambda>c. c \<in> set (drizzle conds),
       ''--from: var(--blue); --to: var(--teal)'', ''--from: var(--navy); --to: var(--teal)''),
      (\<lambda>c. c \<in> set (overcast conds),
       ''--from: var(--navy); --to: var(--teal)'', ''--from: var(--navy); --to: var(--olive)''),
      (\<lambda>c. c \<in> set (foggy conds),
       ''--from: var(--blue); --to: var(--olive)'', ''--from: var(--navy); --to: var(--olive)'')]"

definition gradient_of :: "conditions \<Rightarrow> int \<Rightarrow> bool \<Rightarrow> string" where
  "gradient_of conds c day =
     (case first_match (gradient_rules conds)
             (''--from: var(--blue); --to: var(--aqua)'', ''--from: var(--navy); --to: var(--blue)'') c of
        (by_day, by_night) \<Rightarrow> if day then by_day else by_night)"

section \<open>A platform for concrete runs\<close>

text \<open>
  Numbers are integers, printed in decimal (as \<open>Number::toString\<close> prints an integer
  below \<open>10^21\<close> in magnitude); zero is the falsy one. The date formatters answer as a
  browser does for the local time \<open>2024-01-01 13:00\<close>, and a plain object in child
  position adds no text.
\<close>

fun digits :: "nat \<Rightarrow> string" where
  "digits n =
     (if n < 10 then [char_of (48 + n)]
      else digits (n div 10) @ [char_of (48 + n mod 10)])"

declare digits.simps [simp del]

definition decimal :: "int \<Rightarrow> string" where
  "decimal i = (if i < 0 then CHR ''-'' # digits (nat (- i)) else digits (nat i))"

definition example_platform :: "int platform" where
  "example_platform =
     \<lparr>Number_toString = decimal,
      Number_falsy = (\<lambda>n. n = 0),
      toLocaleDateString = (\<lambda>s. ''January 1''),
      toLocaleTimeString = (\<lambda>s. ''1:00 PM''),
      object_child = (\<lambda>kvs. Some [])\<rparr>"

text \<open>
  A table of condition codes for concrete runs, with codes of the weather API in the
  categories their names suggest (\<open>1000\<close> is clear sky).
\<close>

definition example_conditions :: conditions where
  "example_conditions =
     \<lparr>sunny = [1000], rainy = [1063, 1183, 1189, 1195], cloudy = [1003, 1006],
      drizzle = [1150, 1153], overcast = [1009], foggy = [1030, 1135]\<rparr>"

text \<open>
  A page before the first emission, and the payload of the specification's end-to-end
  example:
  \<^verbatim>\<open>
  {location: {name: "Paris", country: "France", localtime: "2024-01-01 13:00"},
   current: {temp_f: 50, condition: {text: "Clear", code: 1000, icon: "day.png"},
             wind_mph: 5, humidity: 60, pressure_mb: 1012}}
  \<close>
  The two payloads after it are the same one without \<open>localtime\<close>, and without
  \<open>condition\<close>.
\<close>

definition example_page :: document where
  "example_page =
     \<lparr>title = ''Simple Weather'', app_children = Some [Text ''Loading''],
      fragments = (\<lambda>f. []), next_fragment = 0\<rparr>"

definition paris_current :: "int jsval" where
  "paris_current =
     Obj [(''temp_f'', Num 50),
          (''condition'', Obj [(''text'', Str ''Clear''), (''code'', Num 1000), (''icon'', Str ''day.png'')]),
          (''wind_mph'', Num 5), (''humidity'', Num 60), (''pressure_mb'', Num 1012)]"

definition paris :: "int jsval" where
  "paris =
     Obj [(''location'',
           Obj [(''name'', Str ''Paris''), (''country'', Str ''France''),
                (''localtime'', Str ''2024-01-01 13:00'')]),
          (''current'', paris_current)]"


definition paris_without_condition :: "int jsval" where
  "paris_without_condition =
     Obj [(''location'',
           Obj [(''name'', Str ''Paris''), (''country'', Str ''France''),
                (''localtime'', Str ''2024-01-01 13:00'')]),
          (''current'',
           Obj [(''temp_f'', Num 50), (''wind_mph'', Num 5), (''humidity'', Num 60),
                (''pressure_mb'', Num 1012)])]"

text \<open>
  The Paris payload with \<open>"wind_mph": {"toString": 1}\<close>, a value that no template
  literal can turn into a string.
\<close>

definition paris_with_unprintable_wind :: "int jsval" where
  "paris_with_unprintable_wind =
     Obj [(''location'',
           Obj [(''name'', Str ''Paris''), (''country'', Str ''France''),
                (''localtime'', Str ''2024-01-01 13:00'')]),
          (''current'',
           Obj [(''temp_f'', Num 50),
                (''condition'', Obj [(''text'', Str ''Clear''), (''code'', Num 1000), (''icon'', Str ''day.png'')]),
                (''wind_mph'', Obj [(''toString'', Num 1)]), (''humidity'', Num 60),
                (''pressure_mb'', Num 1012)])]"


text \<open>
  The text shown by the first element of the container with a given class: what
  \<open>$('#app').querySelector('.' + c).textContent\<close> reads.
\<close>

definition displayed :: "string \<Rightarrow> document \<Rightarrow> string option" where
  "displayed c s =
     (case app_children s of
        None \<Rightarrow> None
      | Some ns \<Rightarrow> map_option textContent (first_by_class c ns))"

section \<open>Properties\<close>

subsection \<open>Strings\<close>

lemma split_takeWhile:
  "split sep s = takeWhile (\<lambda>c. c \<noteq> sep) s # tl (split sep s)"
  by (induction s) (auto split: list.splits)

lemma index_split_0: "index (split sep s) 0 = Str (takeWhile (\<lambda>c. c \<noteq> sep) s)"
  by (subst split_takeWhile) (simp add: index_def)

lemma startsWith_iff: "startsWith s sub \<longleftrightarrow> (\<exists>post. s = sub @ post)"
  unfolding startsWith_def
  by (metis append_eq_conv_conj append_take_drop_id)

text \<open>\<open>includes_str\<close> is the substring test.\<close>

lemma includes_str_iff: "includes_str s sub \<longleftrightarrow> (\<exists>pre post. s = pre @ sub @ post)"
proof (induction s)
  case Nil
  then show ?case by auto
next
  case (Cons c cs)
  show ?case
  proof
    assume "includes_str (c # cs) sub"
    then consider "startsWith (c # cs) sub" | "includes_str cs sub" by auto
    then show "\<exists>pre post. c # cs = pre @ sub @ post"
    proof cases
      case 1
      then obtain post where "c # cs = sub @ post" by (auto simp: startsWith_iff)
      then have "c # cs = [] @ sub @ post" by simp
      then show ?thesis by blast
    next
      case 2
      then obtain pre post where "cs = pre @ sub @ post" using Cons.IH by auto
      then have "c # cs = (c # pre) @ sub @ post" by simp
      then show ?thesis by blast
    qed
  next
    assume "\<exists>pre post. c # cs = pre @ sub @ post"
    then obtain pre post where e: "c # cs = pre @ sub @ post" by auto
    show "includes_str (c # cs) sub"
    proof (cases pre)
      case Nil
      then have "startsWith (c # cs) sub" using e by (auto simp: startsWith_iff)
      then show ?thesis by simp
    next
      case (Cons p ps)
      then have "cs = ps @ sub @ post" using e by simp
      then have "includes_str cs sub" using Cons.IH by blast
      then show ?thesis by simp
    qed
  qed
qed

subsection \<open>The gradient mapper\<close>

text \<open>
  Claim C3. For every condition code in the sunny set, \<open>useGradient\<close> on a condition with
  that code and a string icon returns the orange/yellow descriptor when the icon name
  contains \<open>day\<close>, and the navy/blue descriptor when it does not.
\<close>

theorem useGradient_sunny:
  "code c \<in> set (sunny conds) \<Longrightarrow> icon c = Str i \<Longrightarrow>
   useGradient conds c =
     Some (if includes_str i ''day'' then ''--from: var(--orange); --to: var(--yellow)''
           else ''--from: var(--navy); --to: var(--blue)'')"
  by (simp add: useGradient_def includes_method_def)

theorem useGradient_sunny_witness:
  "code \<lparr>code = 1000, icon = (Str ''//cdn.weatherapi.com/weather/64x64/day/113.png'' :: int jsval)\<rparr>
     \<in> set (sunny example_conditions)
   \<and> useGradient example_conditions
       \<lparr>code = 1000, icon = (Str ''//cdn.weatherapi.com/weather/64x64/day/113.png'' :: int jsval)\<rparr>
     = Some ''--from: var(--orange); --to: var(--yellow)''
   \<and> useGradient example_conditions
       \<lparr>code = 1000, icon = (Str ''//cdn.weatherapi.com/weather/64x64/night/113.png'' :: int jsval)\<rparr>
     = Some ''--from: var(--navy); --to: var(--blue)''"
  using useGradient_sunny [of "\<lparr>code = 1000, icon = (Str ''//cdn.weatherapi.com/weather/64x64/day/113.png'' :: int jsval)\<rparr>"
      example_conditions "''//cdn.weatherapi.com/weather/64x64/day/113.png''"]
    useGradient_sunny [of "\<lparr>code = 1000, icon = (Str ''//cdn.weatherapi.com/weather/64x64/night/113.png'' :: int jsval)\<rparr>"
      example_conditions "''//cdn.weatherapi.com/weather/64x64/night/113.png''"]
  by (simp add: example_conditions_def startsWith_def)

text \<open>
  Claim C4. For every condition code that is in none of the six category sets,
  \<open>useGradient\<close> returns the default descriptor: blue/aqua when the icon name contains
  \<open>day\<close>, navy/blue otherwise.
\<close>

theorem useGradient_default:
  "code c \<notin> set (sunny conds) \<Longrightarrow> code c \<notin> set (rainy conds) \<Longrightarrow>
   code c \<notin> set (cloudy conds) \<Longrightarrow> code c \<notin> set (drizzle conds) \<Longrightarrow>
   code c \<notin> set (overcast conds) \<Longrightarrow> code c \<notin> set (foggy conds) \<Longrightarrow>
   icon c = Str i \<Longrightarrow>
   useGradient conds c =
     Some (if includes_str i ''day'' then ''--from: var(--blue); --to: var(--aqua)''
           else ''--from: var(--navy); --to: var(--blue)'')"
  by (simp add: useGradient_def includes_method_def)

theorem useGradient_default_witness:
  "1279 \<notin> set (sunny example_conditions) \<and> 1279 \<notin> set (rainy example_conditions)
   \<and> 1279 \<notin> set (cloudy example_conditions) \<and> 1279 \<notin> set (drizzle example_conditions)
   \<and> 1279 \<notin> set (overcast example_conditions) \<and> 1279 \<notin> set (foggy example_conditions)
   \<and> useGradient example_conditions \<lparr>code = 1279, icon = (Str ''day/392.png'' :: int jsval)\<rparr>
     = Some ''--from: var(--blue); --to: var(--aqua)''
   \<and> useGradient example_conditions \<lparr>code = 1279, icon = (Str ''night/392.png'' :: int jsval)\<rparr>
     = Some ''--from: var(--navy); --to: var(--blue)''"
  using useGradient_default [of "\<lparr>code = 1279, icon = (Str ''day/392.png'' :: int jsval)\<rparr>"
      example_conditions "''day/392.png''"]
    useGradient_default [of "\<lparr>code = 1279, icon = (Str ''night/392.png'' :: int jsval)\<rparr>"
      example_conditions "''night/392.png''"]
  by (simp add: example_conditions_def startsWith_def)

text \<open>
  Claim C5. \<open>useGradient\<close> is total on conditions with an integer code and a string icon:
  it returns a descriptor (never the TypeError), and the descriptor is the one of the
  ordered rule list sunny, rainy-or-cloudy, drizzle, overcast, foggy, default, with the
  first matching rule winning.
\<close>

theorem useGradient_total:
  "useGradient conds \<lparr>code = c, icon = Str i\<rparr> = Some (gradient_of conds c (includes_str i ''day''))"
  by (simp add: useGradient_def includes_method_def gradient_of_def gradient_rules_def)

subsection \<open>The language and location resolvers\<close>

text \<open>
  Claim C6, as the code has it. \<open>useLanguage\<close> always resolves: with \<open>en\<close> when the
  browser's locale is undefined or empty, and otherwise with the part of the locale
  before its first hyphen (all of it when it has none), whatever the length of that
  part.
\<close>

theorem useLanguage_primary_subtag:
  "useLanguage nav =
     Resolved (Str (case language nav of
                      None \<Rightarrow> ''en''
                    | Some l \<Rightarrow> if l = [] then ''en'' else takeWhile (\<lambda>c. c \<noteq> CHR ''-'') l))"
  by (cases "language nav") (simp_all add: useLanguage_def index_split_0)

text \<open>
  The result is not always two letters long: the locale \<open>fil-PH\<close> (Filipino) resolves to
  the three letters \<open>fil\<close>.
\<close>

theorem useLanguage_three_letters:
  "useLanguage \<lparr>language = Some ''fil-PH'', geolocation = (None :: int geolocation option)\<rparr>
     = Resolved (Str ''fil'')
   \<and> length ''fil'' = 3"
  by (simp add: useLanguage_def index_def)

text \<open>
  Claim C7. Where the browser has no geolocation support, and where the geolocation
  attempt fails (the error callback is called), \<open>useLocation\<close> resolves with \<open>auto:ip\<close>;
  it does not reject.
\<close>

theorem useLocation_fallback:
  "geolocation nav = None \<or> geolocation nav = Some PositionError \<Longrightarrow>
   fst (useLocation P nav) = Resolved ''auto:ip''"
  by (auto simp: useLocation_def)

theorem useLocation_fallback_witness:
  "fst (useLocation example_platform \<lparr>language = Some ''en-US'', geolocation = None\<rparr>)
     = Resolved ''auto:ip''
   \<and> fst (useLocation example_platform
            \<lparr>language = Some ''en-US'', geolocation = Some PositionError\<rparr>)
     = Resolved ''auto:ip''"
  using useLocation_fallback [of "\<lparr>language = Some ''en-US'', geolocation = None\<rparr>" example_platform]
    useLocation_fallback
      [of "\<lparr>language = Some ''en-US'', geolocation = Some PositionError\<rparr>" example_platform]
  by simp

subsection \<open>The location used at page load\<close>

lemma searchParams_empty: "query w = [] \<Longrightarrow> searchParams w = []"
  by (simp add: searchParams_def)

text \<open>
  Claim C1. If the page URL carries a \<open>q\<close> parameter, the key given to the data source
  is the value of that parameter (of the first one, as \<open>searchParams.get\<close> returns it),
  and \<open>getCurrentPosition\<close> is not called. In particular the query \<open>?q=Paris\<close> gives
  \<open>Paris\<close>.
\<close>

theorem q_parameter_is_the_location:
  "(map_of (searchParams w) ''q'' = Some v \<longrightarrow>
      DOMContentLoaded P w = \<lparr>SWR_key = Some (Str v), getCurrentPosition_calls = 0\<rparr>)
   \<and> DOMContentLoaded P \<lparr>query = ''q=Paris'', navigator = nav\<rparr>
       = \<lparr>SWR_key = Some (Str ''Paris''), getCurrentPosition_calls = 0\<rparr>"
proof
  show "map_of (searchParams w) ''q'' = Some v \<longrightarrow>
      DOMContentLoaded P w = \<lparr>SWR_key = Some (Str v), getCurrentPosition_calls = 0\<rparr>"
  proof
    assume q: "map_of (searchParams w) ''q'' = Some v"
    then have "query w \<noteq> []" by (auto simp: searchParams_empty)
    then show "DOMContentLoaded P w = \<lparr>SWR_key = Some (Str v), getCurrentPosition_calls = 0\<rparr>"
      using q by (simp add: DOMContentLoaded_def location_search_def searchParams_get_def)
  qed
  show "DOMContentLoaded P \<lparr>query = ''q=Paris'', navigator = nav\<rparr>
       = \<lparr>SWR_key = Some (Str ''Paris''), getCurrentPosition_calls = 0\<rparr>"
    by (simp add: DOMContentLoaded_def location_search_def searchParams_get_def searchParams_def
        parse_pair_def urldecode_def)
qed

theorem q_parameter_is_the_location_witness:
  "map_of (searchParams \<lparr>query = ''units=f&q=New+York%2C%20NY&q=Lima'',
       navigator = \<lparr>language = Some ''en-US'', geolocation = Some (Position (40::int) (-74))\<rparr>\<rparr>) ''q''
     = Some ''New York, NY''
   \<and> DOMContentLoaded example_platform
       \<lparr>query = ''units=f&q=New+York%2C%20NY&q=Lima'',
        navigator = \<lparr>language = Some ''en-US'', geolocation = Some (Position (40::int) (-74))\<rparr>\<rparr>
     = \<lparr>SWR_key = Some (Str ''New York, NY''), getCurrentPosition_calls = 0\<rparr>"
proof -
  have q: "map_of (searchParams \<lparr>query = ''units=f&q=New+York%2C%20NY&q=Lima'',
       navigator = \<lparr>language = Some ''en-US'', geolocation = Some (Position (40::int) (-74))\<rparr>\<rparr>) ''q''
     = Some ''New York, NY''"
    by code_simp
  show ?thesis
    using q q_parameter_is_the_location [of
        "\<lparr>query = ''units=f&q=New+York%2C%20NY&q=Lima'',
          navigator = \<lparr>language = Some ''en-US'', geolocation = Some (Position (40::int) (-74))\<rparr>\<rparr>"
        "''New York, NY''" example_platform]
    by simp
qed

text \<open>
  Claim C2. If the query of the page URL is not empty and has no \<open>q\<close> parameter, the key
  given to the data source is \<open>null\<close> and \<open>getCurrentPosition\<close> is not called.
\<close>

theorem no_q_parameter_gives_null:
  "query w \<noteq> [] \<Longrightarrow> map_of (searchParams w) ''q'' = None \<Longrightarrow>
   DOMContentLoaded P w = \<lparr>SWR_key = Some Null, getCurrentPosition_calls = 0\<rparr>"
  by (simp add: DOMContentLoaded_def location_search_def searchParams_get_def)

theorem no_q_parameter_gives_null_witness:
  "query \<lparr>query = ''foo=bar'',
       navigator = \<lparr>language = Some ''en-US'', geolocation = Some (Position (40::int) (-74))\<rparr>\<rparr> \<noteq> []
   \<and> map_of (searchParams \<lparr>query = ''foo=bar'',
       navigator = \<lparr>language = Some ''en-US'', geolocation = Some (Position (40::int) (-74))\<rparr>\<rparr>) ''q''
     = None
   \<and> DOMContentLoaded example_platform
       \<lparr>query = ''foo=bar'',
        navigator = \<lparr>language = Some ''en-US'', geolocation = Some (Position (40::int) (-74))\<rparr>\<rparr>
     = \<lparr>SWR_key = Some Null, getCurrentPosition_calls = 0\<rparr>"
proof -
  have q: "map_of (searchParams \<lparr>query = ''foo=bar'',
       navigator = \<lparr>language = Some ''en-US'', geolocation = Some (Position (40::int) (-74))\<rparr>\<rparr>) ''q''
     = None"
    by (simp add: searchParams_def parse_pair_def urldecode_def)
  show ?thesis
    using q no_q_parameter_gives_null [of
        "\<lparr>query = ''foo=bar'',
          navigator = \<lparr>language = Some ''en-US'', geolocation = Some (Position (40::int) (-74))\<rparr>\<rparr>"
        example_platform]
    by simp
qed

subsection \<open>render\<close>

lemma render_Fragment:
  "app_children s = Some old \<Longrightarrow>
   render (Fragment f) s = Some (s\<lparr>app_children := Some (fragments s f), fragments := (fragments s)(f := [])\<rparr>)"
  by (simp add: render_def appendChild_def)

lemma render_None: "app_children s = None \<Longrightarrow> render a s = None"
  by (simp add: render_def)

text \<open>
  Claim C9. Rendering a fragment and then an equal rebuild of it (another fragment
  object with the same children) leaves the container with the same content as
  rendering once; and one call replaces whatever the container held by the children of
  the fragment.
\<close>

theorem render_idempotent:
  assumes "f1 \<noteq> f2" and "fragments s f2 = fragments s f1"
  shows "map_option app_children (Option.bind (render (Fragment f1) s) (render (Fragment f2)))
           = map_option app_children (render (Fragment f1) s)
         \<and> map_option app_children (render (Fragment f1) s)
           = map_option (\<lambda>old. Some (fragments s f1)) (app_children s)"
proof (cases "app_children s")
  case None
  then show ?thesis by (simp add: render_None)
next
  case (Some old)
  then show ?thesis using assms by (simp add: render_Fragment)
qed

theorem render_idempotent_witness:
  "(0::nat) \<noteq> 1
   \<and> map_option app_children
       (Option.bind
          (render (Fragment 0)
             \<lparr>title = ''Simple Weather'', app_children = Some [Text ''Loading''],
              fragments = (\<lambda>f. if f < 2 then [Element ''h1'' [] [Text ''Paris'']] else []),
              next_fragment = 2\<rparr>)
          (render (Fragment 1)))
     = Some (Some [Element ''h1'' [] [Text ''Paris'']])
   \<and> map_option app_children
       (render (Fragment 0)
          \<lparr>title = ''Simple Weather'', app_children = Some [Text ''Loading''],
           fragments = (\<lambda>f. if f < 2 then [Element ''h1'' [] [Text ''Paris'']] else []),
           next_fragment = 2\<rparr>)
     = Some (Some [Element ''h1'' [] [Text ''Paris'']])"
  using render_idempotent [of 0 1
      "\<lparr>title = ''Simple Weather'', app_children = Some [Text ''Loading''],
        fragments = (\<lambda>f. if f < 2 then [Element ''h1'' [] [Text ''Paris'']] else []),
        next_fragment = 2\<rparr>"]
  by simp

text \<open>
  The rebuild matters: the first call empties the fragment object it is given, so a
  second call with the very same object leaves the container empty.
\<close>

lemma render_same_fragment_twice:
  "app_children s = Some old \<Longrightarrow>
   map_option app_children (Option.bind (render (Fragment f) s) (render (Fragment f))) = Some (Some [])"
  by (simp add: render_Fragment)

subsection \<open>The watch callback\<close>

text \<open>
  Claim C10. On an emission whose \<open>data\<close> is absent or falsy the callback returns with
  the page as it was: neither the container nor the title is written.
\<close>

theorem falsy_data_leaves_the_page:
  "\<not> truthy P (data e) \<Longrightarrow> watch_callback P e s = Returned s"
  by (simp add: watch_callback_def)

theorem falsy_data_leaves_the_page_witness:
  "list_all (\<lambda>d. \<not> truthy example_platform d
       \<and> watch_callback example_platform \<lparr>data = d\<rparr>
           \<lparr>title = ''Simple Weather'', app_children = Some [Text ''Loading''],
            fragments = (\<lambda>f. []), next_fragment = 0\<rparr>
         = Returned \<lparr>title = ''Simple Weather'', app_children = Some [Text ''Loading''],
            fragments = (\<lambda>f. []), next_fragment = 0\<rparr>)
     [Undefined, Null, Bool False, Num 0, Str '''']"
  using falsy_data_leaves_the_page [of example_platform _
      "\<lparr>title = ''Simple Weather'', app_children = Some [Text ''Loading''],
            fragments = (\<lambda>f. []), next_fragment = 0\<rparr>"]
  by (simp add: truthy_def example_platform_def)

lemma ToString_None_iff:
  "ToString P v = None \<longleftrightarrow> unprintable v" and "join P xs = None \<longleftrightarrow> unprintables xs"
  by (induction P v and P xs rule: ToString_join.induct)
     (auto simp: Option.bind_eq_None_conv split: if_splits)

text \<open>Reading the title back: white space at the ends goes, a run inside becomes one space.\<close>

lemma collapse_example:
  "collapse False False
     [CHR 0x20, CHR ''S'', CHR ''a'', CHR ''n'', CHR 0x20, CHR 0x0A, CHR ''J'', CHR 0x09]
   = ''San J''"
  by (simp add: ascii_whitespace_def)














text \<open>
  Likewise without \<open>condition\<close> (\<open>current.condition.text\<close> throws), with a \<open>wind_mph\<close>
  that cannot be turned into a string (the template literal of line 15 throws), and on
  a page without the container (\<open>render\<close> throws after the title is written).
\<close>

lemma missing_condition_throws:
  "watch_callback example_platform \<lparr>data = paris_without_condition\<rparr> example_page
     = Thrown example_page"
  by (simp add: paris_without_condition_def get_def watch_callback_def
      truthy_def App_roots_def)

lemma unprintable_wind_throws:
  "watch_callback example_platform \<lparr>data = paris_with_unprintable_wind\<rparr> example_page
     = Thrown example_page"
  by (simp add: paris_with_unprintable_wind_def get_def watch_callback_def
      truthy_def App_roots_def)

lemma missing_container_throws:
  "\<exists>s'. watch_callback example_platform \<lparr>data = paris\<rparr> (example_page\<lparr>app_children := None\<rparr>)
     = Thrown s' \<and> title s' = ''Weather forecast in Paris, France''
       \<and> displayed ''temperature'' s' = None"
  by (simp add: paris_def paris_current_def get_def watch_callback_def truthy_def App_roots_def
      string_receiver_def html_def render_def displayed_def example_page_def title_text_def)

text \<open>
  Two emissions of the same data in succession: the second run of the callback builds
  its own fragment, and the title and the container end up as after the first.
\<close>

lemma watch_callback_Returned:
  assumes "watch_callback P e s = Returned s1" "truthy P (data e)"
  shows "\<exists>roots loc t.
           App_roots P (data e) = Some (roots, loc) \<and> title_text P loc = Some t
           \<and> app_children s \<noteq> None
           \<and> app_children s1 = Some roots
           \<and> title s1 = t"
proof (cases "App_roots P (data e)")
  case None
  then show ?thesis using assms by (simp add: watch_callback_def)
next
  case (Some r)
  obtain roots loc where r: "r = (roots, loc)" by (cases r)
  show ?thesis
  proof (cases "title_text P loc")
    case None
    then show ?thesis using assms Some r by (simp add: watch_callback_def html_def)
  next
    case t: (Some t)
    show ?thesis
    proof (cases "app_children s")
      case None
      then show ?thesis using assms Some r t
        by (simp add: watch_callback_def html_def render_None)
    next
      case (Some old)
      then show ?thesis using assms \<open>App_roots P (data e) = Some r\<close> r t
        by (auto simp: watch_callback_def html_def render_Fragment)
    qed
  qed
qed

lemma watch_callback_twice:
  assumes "watch_callback P e s = Returned s1"
  shows "\<exists>s2. watch_callback P e s1 = Returned s2
           \<and> title s2 = title s1 \<and> app_children s2 = app_children s1"
proof (cases "truthy P (data e)")
  case False
  then show ?thesis using assms by (simp add: watch_callback_def)
next
  case True
  from watch_callback_Returned [OF assms True]
  obtain roots loc t where
    "App_roots P (data e) = Some (roots, loc)" "title_text P loc = Some t"
    "app_children s1 = Some roots" "title s1 = t"
    by (elim exE conjE)
  then show ?thesis using True
    by (simp add: watch_callback_def html_def render_Fragment)
qed

end
